theory Spec2Isabelle
  imports Complex_Main
begin

section \<open>Values shared by the store and the client\<close>

text \<open>
  Identifiers are the textual uuids the client passes around (\<open>manga.id\<close>, \<open>user.id\<close>);
  a \<open>timestamptz\<close> is a point on a discrete time line.  A text a user types is a list
  of UTF-16 code units, the unit in which \<open>String.prototype.trim\<close> works; \<open>utf16\<close> gives
  the code units of a text of the program itself (an option value, an email address).
\<close>

type_synonym uuid = string
type_synonym timestamp = nat
type_synonym js_string = "nat list"

definition utf16 :: "string \<Rightarrow> js_string" where
  "utf16 s = map of_char s"

text \<open>
  What the store takes as a \<open>text\<close> value: no code unit 0, and every surrogate in a pair,
  a high one followed by a low one.
\<close>

fun text_ok :: "js_string \<Rightarrow> bool" where
  "text_ok [] = True"
| "text_ok [c] = (c \<noteq> 0 \<and> \<not> (0xD800 \<le> c \<and> c \<le> 0xDFFF))"
| "text_ok (c # d # cs) =
     (if 0xD800 \<le> c \<and> c \<le> 0xDBFF then 0xDC00 \<le> d \<and> d \<le> 0xDFFF \<and> text_ok cs
      else c \<noteq> 0 \<and> \<not> (0xDC00 \<le> c \<and> c \<le> 0xDFFF) \<and> text_ok (d # cs))"

text \<open>The range of an \<open>integer\<close> column.\<close>

definition int4 :: "int \<Rightarrow> bool" where
  "int4 n \<longleftrightarrow> - 2147483648 \<le> n \<and> n \<le> 2147483647"

datatype toast = Toast_error string | Toast_success string

text \<open>
  \<open>User\<close> of \<open>App.tsx\<close>.  The type declares \<open>email: string\<close>; \<open>fetchUserProfile\<close> stores
  \<open>authUser.user.email!\<close> unchecked, so the field can be absent at run time.
\<close>

record app_user =
  u_id :: uuid
  u_email :: "string option"
  u_isAdmin :: bool
  u_username :: "string option"
  u_avatar_url :: "string option"

section \<open>The store: tables\<close>

text \<open>
  One record per table of the migrations, one field per column.  A nullable column is an
  option, except the columns that every write of this program fills (the \<open>read\<close> flags
  with their default \<open>false\<close>, \<open>status\<close> with its default \<open>'pending'\<close>, and the
  \<open>created_at\<close> stamps with \<open>now()\<close>).  A table is the list of its rows in insertion
  order.  Foreign keys are not part of the model: the referenced rows are taken to exist.
\<close>

datatype json = JNull | JNumber int | JString js_string | JObject "(string \<times> json) list"

record comment_row =
  c_id :: uuid
  c_manga_id :: uuid
  c_chapter :: int
  c_user_id :: uuid
  c_user_email :: string
  c_content :: js_string
  c_created_at :: timestamp

record subscription_row =
  cs_user_id :: uuid
  cs_manga_id :: uuid
  cs_chapter :: int
  cs_created_at :: timestamp

record comment_notification =
  cn_id :: uuid
  cn_user_id :: uuid
  cn_comment_id :: uuid
  cn_read :: bool
  cn_created_at :: timestamp

record manga_report =
  mr_id :: uuid
  mr_manga_id :: uuid
  mr_chapter :: int
  mr_user_id :: uuid
  mr_issue_type :: string
  mr_description :: "js_string option"
  mr_status :: string
  mr_resolved_at :: "timestamp option"
  mr_created_at :: timestamp

record admin_notification =
  an_id :: uuid
  an_type :: string
  an_data :: json
  an_read :: bool
  an_created_at :: timestamp

record profile =
  p_user_id :: uuid
  p_username :: "string option"
  p_avatar_url :: "string option"
  p_is_admin :: bool
  p_created_at :: timestamp
  p_updated_at :: timestamp

text \<open>The user of the authentication service, as \<open>supabase.auth.getUser()\<close> returns it.\<close>

record principal =
  pr_id :: uuid
  pr_email :: "string option"

text \<open>
  The backing service as one value: the tables, the \<open>pg_notify\<close> calls made so far
  (channel and payload), the text the server gives for a JSON value (\<open>json_text\<close>, the
  cast \<open>::text\<close>, as bytes), the values \<open>gen_random_uuid()\<close> returns (\<open>uuid_source\<close>, of
  which \<open>uuid_drawn\<close> are used; they are taken to be fresh), the value of \<open>now()\<close>, the
  signed-in principal, whether a request reaches the service at all (\<open>online\<close>), and
  whether the schema variant with \<open>CONSTRAINT valid_status CHECK (status IN (...))\<close> is
  the one in force.
\<close>

record store =
  comments :: "comment_row list"
  comment_subscriptions :: "subscription_row list"
  comment_notifications :: "comment_notification list"
  manga_reports :: "manga_report list"
  admin_notifications :: "admin_notification list"
  profiles :: "profile list"
  notified :: "(string \<times> string) list"
  json_text :: "json \<Rightarrow> string"
  uuid_source :: "nat \<Rightarrow> uuid"
  uuid_drawn :: nat
  clock :: timestamp
  session :: "principal option"
  online :: bool
  valid_status :: bool

datatype store_error =
    Unavailable
  | Auth_error
  | No_authenticated_user
  | Unique_violation
  | Not_null_violation
  | Check_violation
  | No_rows
  | Policy_violation
  | Out_of_range
  | Invalid_text
  | Payload_too_long

definition gen_random_uuid :: "store \<Rightarrow> uuid \<times> store" where
  "gen_random_uuid st = (uuid_source st (uuid_drawn st), st\<lparr>uuid_drawn := Suc (uuid_drawn st)\<rparr>)"

section \<open>The store: who asks\<close>

text \<open>
  A request of the client runs as the signed-in principal, and so does a trigger it
  fires: neither trigger function is declared \<open>SECURITY DEFINER\<close>.  \<open>auth_uid\<close> is
  \<open>auth.uid()\<close>, null without a session.  \<open>is_admin\<close> is the test of the policies
  \<open>EXISTS (SELECT 1 FROM profiles WHERE profiles.user_id = auth.uid() AND
  profiles.is_admin = true)\<close>.

  The policies are written into the inserts of comments and reports and into the two
  triggers these fire.  The other requests below are made for the caller's own rows, or
  from the administrators' panel, and are given without their policies.
\<close>

definition auth_uid :: "store \<Rightarrow> uuid option" where
  "auth_uid st = map_option pr_id (session st)"

definition is_admin :: "store \<Rightarrow> bool" where
  "is_admin st = list_ex (\<lambda>p. auth_uid st = Some (p_user_id p) \<and> p_is_admin p) (profiles st)"

section \<open>The store: comments, subscriptions and the fan-out trigger\<close>

text \<open>
  The rows of \<open>comment_subscriptions\<close> a statement of the caller sees: the policy
  \<open>FOR ALL TO authenticated USING (auth.uid() = user_id)\<close> is the only one on the table.
\<close>

definition visible_subscriptions :: "store \<Rightarrow> subscription_row list" where
  "visible_subscriptions st =
     filter (\<lambda>cs. auth_uid st = Some (cs_user_id cs)) (comment_subscriptions st)"

text \<open>
  The trigger function \<open>notify_comment_subscribers()\<close>: \<open>INSERT INTO
  comment_notifications (user_id, comment_id) SELECT cs.user_id, NEW.id FROM
  comment_subscriptions cs WHERE cs.manga_id = NEW.manga_id AND cs.chapter = NEW.chapter
  AND cs.user_id != NEW.user_id\<close>.  The columns compared are key columns or \<open>NOT NULL\<close>,
  so no comparison is against null.  The \<open>SELECT\<close> reads the rows the caller sees.
  \<open>comment_notifications\<close> has policies for \<open>SELECT\<close> and for \<open>UPDATE\<close> and none for
  \<open>INSERT\<close>: a row the statement selects is refused, and the statement fails; with
  nothing selected it inserts nothing and succeeds.
\<close>

definition notify_comment_subscribers :: "comment_row \<Rightarrow> store \<Rightarrow> store_error + store" where
  "notify_comment_subscribers new st =
     (if filter (\<lambda>cs. cs_manga_id cs = c_manga_id new \<and> cs_chapter cs = c_chapter new
                       \<and> cs_user_id cs \<noteq> c_user_id new)
           (visible_subscriptions st) = []
      then Inr st
      else Inl Policy_violation)"

text \<open>
  An insert into \<open>comments\<close> as the client issues it (\<open>manga_id\<close>, \<open>chapter\<close>,
  \<open>user_id\<close>, \<open>user_email\<close>, \<open>content\<close>), followed by the \<open>AFTER INSERT ... FOR EACH
  ROW\<close> trigger \<open>on_comment_created\<close>; an error of the trigger undoes the insert.  The
  policies admit the row \<open>TO authenticated WITH CHECK (auth.uid() = user_id)\<close>.
  \<open>user_email\<close> is \<open>NOT NULL\<close>; a request that leaves it out is rejected.
\<close>

definition insert_comment ::
  "uuid \<Rightarrow> int \<Rightarrow> uuid \<Rightarrow> string option \<Rightarrow> js_string \<Rightarrow> store \<Rightarrow> store_error + store" where
  "insert_comment m ch u email content st =
     (if \<not> online st then Inl Unavailable
      else if auth_uid st \<noteq> Some u then Inl Policy_violation
      else if \<not> int4 ch then Inl Out_of_range
      else case email of
        None \<Rightarrow> Inl Not_null_violation
      | Some e \<Rightarrow>
          if \<not> (text_ok (utf16 e) \<and> text_ok content) then Inl Invalid_text
          else
            (let (i, st1) = gen_random_uuid st;
                 new = \<lparr>c_id = i, c_manga_id = m, c_chapter = ch, c_user_id = u,
                        c_user_email = e, c_content = content, c_created_at = clock st1\<rparr>;
                 st2 = st1\<lparr>comments := comments st1 @ [new]\<rparr>
             in notify_comment_subscribers new st2))"

text \<open>The key of \<open>PRIMARY KEY (user_id, manga_id, chapter)\<close>.\<close>

definition subscription_key :: "subscription_row \<Rightarrow> uuid \<times> uuid \<times> int" where
  "subscription_key cs = (cs_user_id cs, cs_manga_id cs, cs_chapter cs)"

definition insert_subscription :: "uuid \<Rightarrow> int \<Rightarrow> uuid \<Rightarrow> store \<Rightarrow> store_error + store" where
  "insert_subscription m ch u st =
     (if \<not> online st then Inl Unavailable
      else if (u, m, ch) \<in> set (map subscription_key (comment_subscriptions st))
      then Inl Unique_violation
      else Inr (st\<lparr>comment_subscriptions := comment_subscriptions st @
                    [\<lparr>cs_user_id = u, cs_manga_id = m, cs_chapter = ch,
                      cs_created_at = clock st\<rparr>]\<rparr>))"

text \<open>\<open>.delete().eq('manga_id', m).eq('chapter', ch).eq('user_id', u)\<close>.\<close>

definition delete_subscription :: "uuid \<Rightarrow> int \<Rightarrow> uuid \<Rightarrow> store \<Rightarrow> store_error + store" where
  "delete_subscription m ch u st =
     (if \<not> online st then Inl Unavailable
      else Inr (st\<lparr>comment_subscriptions :=
                    filter (\<lambda>cs. \<not> (cs_manga_id cs = m \<and> cs_chapter cs = ch \<and> cs_user_id cs = u))
                      (comment_subscriptions st)\<rparr>))"

section \<open>The store: reports and the administrators' notifications\<close>

text \<open>
  The object both \<open>jsonb_build_object\<close> and \<open>json_build_object\<close> are given in
  \<open>notify_admins_on_report()\<close>.
\<close>

definition report_payload :: "manga_report \<Rightarrow> json" where
  "report_payload new =
     JObject [(''report_id'', JString (utf16 (mr_id new))),
              (''manga_id'', JString (utf16 (mr_manga_id new))),
              (''chapter'', JNumber (mr_chapter new)),
              (''issue_type'', JString (utf16 (mr_issue_type new))),
              (''description'', (case mr_description new of
                                   None \<Rightarrow> JNull
                                 | Some d \<Rightarrow> JString d))]"

text \<open>
  The trigger function \<open>notify_admins_on_report()\<close>: one row into
  \<open>admin_notifications (type, data)\<close>, then \<open>pg_notify('admin_report_notification',
  json_build_object(...)::text)\<close>.  The only policy on \<open>admin_notifications\<close> is
  \<open>FOR ALL TO authenticated USING (is_admin)\<close>, which also checks the rows written.
  \<open>pg_notify\<close> raises on a payload of 8000 bytes or more.
\<close>

definition notify_admins_on_report :: "manga_report \<Rightarrow> store \<Rightarrow> store_error + store" where
  "notify_admins_on_report new st =
     (if \<not> is_admin st then Inl Policy_violation
      else if 8000 \<le> length (json_text st (report_payload new)) then Inl Payload_too_long
      else
        (let (i, st1) = gen_random_uuid st;
             st2 = st1\<lparr>admin_notifications := admin_notifications st1 @
                      [\<lparr>an_id = i, an_type = ''manga_report'', an_data = report_payload new,
                        an_read = False, an_created_at = clock st1\<rparr>]\<rparr>
         in Inr (st2\<lparr>notified := notified st2 @
                      [(''admin_report_notification'', json_text st2 (report_payload new))]\<rparr>)))"

text \<open>
  An insert into \<open>manga_reports\<close> as the client issues it (\<open>manga_id\<close>, \<open>chapter\<close>,
  \<open>user_id\<close>, \<open>issue_type\<close>, \<open>description\<close>), with \<open>status\<close> from \<open>DEFAULT 'pending'\<close> and
  \<open>resolved_at\<close> null, followed by the trigger \<open>on_manga_report_created\<close>; an error of
  the trigger undoes the insert.  The policies admit the row \<open>WITH CHECK (auth.uid() =
  user_id)\<close>, or from an administrator.
\<close>

definition insert_manga_report ::
  "uuid \<Rightarrow> int \<Rightarrow> uuid \<Rightarrow> string \<Rightarrow> js_string option \<Rightarrow> store \<Rightarrow> store_error + store" where
  "insert_manga_report m ch u issue descr st =
     (if \<not> online st then Inl Unavailable
      else if \<not> (auth_uid st = Some u \<or> is_admin st) then Inl Policy_violation
      else if \<not> int4 ch then Inl Out_of_range
      else if \<not> (text_ok (utf16 issue) \<and> (case descr of None \<Rightarrow> True | Some d \<Rightarrow> text_ok d))
      then Inl Invalid_text
      else
        (let (i, st1) = gen_random_uuid st;
             new = \<lparr>mr_id = i, mr_manga_id = m, mr_chapter = ch, mr_user_id = u,
                    mr_issue_type = issue, mr_description = descr, mr_status = ''pending'',
                    mr_resolved_at = None, mr_created_at = clock st1\<rparr>;
             st2 = st1\<lparr>manga_reports := manga_reports st1 @ [new]\<rparr>
         in notify_admins_on_report new st2))"

definition statuses :: "string list" where
  "statuses = [''pending'', ''in_progress'', ''resolved'', ''rejected'']"

text \<open>
  \<open>.update({status, resolved_at}).eq('id', reportId)\<close> on \<open>manga_reports\<close>.  Where the
  check constraint is in force, a row that would get a status outside the four is rejected
  and nothing is written.
\<close>

definition update_manga_report ::
  "uuid \<Rightarrow> string \<Rightarrow> timestamp option \<Rightarrow> store \<Rightarrow> store_error + store" where
  "update_manga_report rid s ra st =
     (if \<not> online st then Inl Unavailable
      else if valid_status st \<and> s \<notin> set statuses \<and> rid \<in> set (map mr_id (manga_reports st))
      then Inl Check_violation
      else Inr (st\<lparr>manga_reports :=
                    map (\<lambda>r. if mr_id r = rid then r\<lparr>mr_status := s, mr_resolved_at := ra\<rparr> else r)
                      (manga_reports st)\<rparr>))"

text \<open>\<open>.update({ read: true }).eq('id', id)\<close> on \<open>admin_notifications\<close>.\<close>

definition update_admin_notification_read :: "uuid \<Rightarrow> store \<Rightarrow> store_error + store" where
  "update_admin_notification_read nid st =
     (if \<not> online st then Inl Unavailable
      else Inr (st\<lparr>admin_notifications :=
                    map (\<lambda>n. if an_id n = nid then n\<lparr>an_read := True\<rparr> else n)
                      (admin_notifications st)\<rparr>))"

section \<open>The store: authentication and profiles\<close>

text \<open>
  \<open>supabase.auth.getUser()\<close>: without a session, or when the service is out of reach, the
  answer is an error of the authentication client (one with \<open>__isAuthError\<close>).
\<close>

definition getUser :: "store \<Rightarrow> store_error + principal option" where
  "getUser st =
     (if \<not> online st then Inl Auth_error
      else case session st of None \<Rightarrow> Inl Auth_error | Some p \<Rightarrow> Inr (Some p))"

definition signOut :: "store \<Rightarrow> store" where
  "signOut st = st\<lparr>session := None\<rparr>"

text \<open>
  \<open>.select(...).eq('user_id', userId).maybeSingle()\<close> and \<open>.single()\<close> on \<open>profiles\<close>, whose
  primary key is \<open>user_id\<close>: at most one row matches; \<open>.single()\<close> fails on none.
\<close>

definition select_profile :: "uuid \<Rightarrow> store \<Rightarrow> store_error + profile option" where
  "select_profile uid st =
     (if \<not> online st then Inl Unavailable
      else Inr (find (\<lambda>p. p_user_id p = uid) (profiles st)))"

definition select_profile_single :: "uuid \<Rightarrow> store \<Rightarrow> store_error + profile" where
  "select_profile_single uid st =
     (if \<not> online st then Inl Unavailable
      else case find (\<lambda>p. p_user_id p = uid) (profiles st) of
        None \<Rightarrow> Inl No_rows
      | Some p \<Rightarrow> Inr p)"

text \<open>
  An insert into \<open>profiles\<close> of \<open>user_id\<close>, \<open>username\<close> and \<open>is_admin\<close>.  \<open>user_id\<close> is the
  primary key and \<open>username\<close> is \<open>UNIQUE\<close> (nulls do not collide).
\<close>

definition insert_profile :: "uuid \<Rightarrow> string option \<Rightarrow> bool \<Rightarrow> store \<Rightarrow> store_error + store" where
  "insert_profile uid name adm st =
     (if \<not> online st then Inl Unavailable
      else if uid \<in> set (map p_user_id (profiles st)) then Inl Unique_violation
      else if name \<noteq> None \<and> name \<in> set (map p_username (profiles st)) then Inl Unique_violation
      else Inr (st\<lparr>profiles := profiles st @
                    [\<lparr>p_user_id = uid, p_username = name, p_avatar_url = None,
                      p_is_admin = adm, p_created_at = clock st, p_updated_at = clock st\<rparr>]\<rparr>))"

section \<open>The reader component\<close>

text \<open>
  The props (\<open>manga.id\<close>, \<open>user\<close>, \<open>chapterNumber\<close>) and the pieces of component state
  of \<open>Reader.tsx\<close> that the handlers below read or write.  \<open>toasts\<close> collects the
  calls of \<open>toast.error\<close> and \<open>toast.success\<close> in order.

  A handler is made anew at every render and reads the state of that render.  The
  buttons call the handler of the current render.  The \<open>keydown\<close> listener is
  registered by the effect of l.49-100 and keeps the handlers of the render the effect
  last ran for; the effect runs again only when one of \<open>manga.id\<close>, \<open>chapterNumber\<close>,
  \<open>user\<close>, \<open>readingMode\<close>, \<open>showReportModal\<close>, \<open>showComments\<close> changes.  Of the state its
  handlers hold, \<open>readingMode\<close> is therefore current and \<open>pages\<close> need not be:
  \<open>listener_pages\<close> is the value of \<open>pages\<close> the listener holds.
\<close>

datatype reading_mode = Paginated | Cascade

record reader =
  manga_id :: uuid
  user :: "app_user option"
  chapterNumber :: int
  newComment :: js_string
  pages :: "string list"
  currentPage :: int
  loading :: bool
  readingMode :: reading_mode
  isSubscribed :: bool
  showReportModal :: bool
  reportType :: string
  reportDescription :: js_string
  toasts :: "toast list"
  listener_pages :: "string list"

definition toast_reader :: "toast \<Rightarrow> reader \<Rightarrow> reader" where
  "toast_reader t r = r\<lparr>toasts := toasts r @ [t]\<rparr>"

datatype direction = Prev | Next

text \<open>
  \<open>handlePageChange\<close> as made by a render whose \<open>pages\<close> is \<open>captured\<close>; the updater it
  passes to \<open>setCurrentPage\<close> gets the current page: \<open>Math.max(0, prev - 1)\<close> for
  \<open>'prev'\<close>, \<open>Math.min(pages.length - 1, prev + 1)\<close> otherwise.
\<close>

definition handlePageChange :: "string list \<Rightarrow> direction \<Rightarrow> reader \<Rightarrow> reader" where
  "handlePageChange captured d r =
     r\<lparr>currentPage :=
         (case d of
            Prev \<Rightarrow> max 0 (currentPage r - 1)
          | Next \<Rightarrow> min (int (length captured) - 1) (currentPage r + 1))\<rparr>"

text \<open>
  \<open>loadChapter\<close>; \<open>answer\<close> is the list of page addresses the request and the
  rasterisation give, or nothing when either fails.
\<close>

definition loadChapter :: "string list option \<Rightarrow> reader \<Rightarrow> reader" where
  "loadChapter answer r =
     (case answer of
        Some pageUrls \<Rightarrow> r\<lparr>pages := pageUrls, loading := False\<rparr>
      | None \<Rightarrow> (toast_reader (Toast_error ''Failed to load chapter'') r)\<lparr>loading := False\<rparr>)"

text \<open>
  The effect of l.49-100, run for the render with state \<open>r\<close>: it starts \<open>loadChapter\<close>
  and registers the listener with the handlers of that render.  (It also loads the
  comments and the subscription, which touch none of the fields used here.)
\<close>

definition effect :: "string list option \<Rightarrow> reader \<Rightarrow> reader" where
  "effect answer r = loadChapter answer (r\<lparr>listener_pages := pages r\<rparr>)"

text \<open>
  \<open>toggleReadingMode\<close>, and the effect that follows because \<open>readingMode\<close> changed.
\<close>

definition toggleReadingMode :: "string list option \<Rightarrow> reader \<Rightarrow> reader" where
  "toggleReadingMode answer r =
     effect answer
       (r\<lparr>readingMode := (case readingMode r of Paginated \<Rightarrow> Cascade | Cascade \<Rightarrow> Paginated),
          currentPage := 0\<rparr>)"

text \<open>\<open>handleKeyPress\<close> on \<open>ArrowLeft\<close> and \<open>ArrowRight\<close>, outside an input field.\<close>

definition handleKeyPress :: "direction \<Rightarrow> reader \<Rightarrow> reader" where
  "handleKeyPress d r =
     (if readingMode r = Paginated then handlePageChange (listener_pages r) d r else r)"

text \<open>
  A click on one of the two buttons, which are shown in paginated mode and disabled at
  \<open>currentPage === 0\<close> and at \<open>currentPage === pages.length - 1\<close>.
\<close>

definition click :: "direction \<Rightarrow> reader \<Rightarrow> reader" where
  "click d r =
     (if readingMode r = Paginated
         \<and> (case d of Prev \<Rightarrow> currentPage r \<noteq> 0
                       | Next \<Rightarrow> currentPage r \<noteq> int (length (pages r)) - 1)
      then handlePageChange (pages r) d r
      else r)"

text \<open>A sequence of calls of the handler of a render with the current pages.\<close>

fun page_changes :: "direction list \<Rightarrow> reader \<Rightarrow> reader" where
  "page_changes [] r = r"
| "page_changes (d # ds) r = page_changes ds (handlePageChange (pages r) d r)"

definition in_bounds :: "reader \<Rightarrow> bool" where
  "in_bounds r \<longleftrightarrow> 0 \<le> currentPage r \<and> currentPage r \<le> int (length (pages r)) - 1"

text \<open>
  \<open>String.prototype.trim\<close> removes the code units of WhiteSpace and LineTerminator from
  both ends.
\<close>

definition is_whitespace :: "nat \<Rightarrow> bool" where
  "is_whitespace c \<longleftrightarrow>
     c \<in> {0x9, 0xA, 0xB, 0xC, 0xD, 0x20, 0xA0, 0x1680, 0x2028, 0x2029, 0x202F, 0x205F,
          0x3000, 0xFEFF}
     \<or> (0x2000 \<le> c \<and> c \<le> 0x200A)"

definition trim :: "js_string \<Rightarrow> js_string" where
  "trim s = rev (dropWhile is_whitespace (rev (dropWhile is_whitespace s)))"

text \<open>\<open>handleComment\<close>.\<close>

definition handleComment :: "store \<Rightarrow> reader \<Rightarrow> store \<times> reader" where
  "handleComment st r =
     (case user r of
        None \<Rightarrow> (st, toast_reader (Toast_error ''Please login to comment'') r)
      | Some u \<Rightarrow>
          if trim (newComment r) = [] then
            (st, toast_reader (Toast_error ''Please enter a comment'') r)
          else
            (case insert_comment (manga_id r) (chapterNumber r) (u_id u) (u_email u)
                    (trim (newComment r)) st of
               Inl e \<Rightarrow> (st, toast_reader (Toast_error ''Failed to add comment'') r)
             | Inr st' \<Rightarrow>
                 (st', toast_reader (Toast_success ''Comment added successfully'')
                         (r\<lparr>newComment := []\<rparr>))))"

text \<open>\<open>toggleSubscription\<close>.\<close>

definition toggleSubscription :: "store \<Rightarrow> reader \<Rightarrow> store \<times> reader" where
  "toggleSubscription st r =
     (case user r of
        None \<Rightarrow> (st, toast_reader (Toast_error ''Please login to subscribe to comments'') r)
      | Some u \<Rightarrow>
          if isSubscribed r then
            (case delete_subscription (manga_id r) (chapterNumber r) (u_id u) st of
               Inl e \<Rightarrow> (st, toast_reader (Toast_error ''Failed to update subscription'') r)
             | Inr st' \<Rightarrow>
                 (st', toast_reader (Toast_success ''Unsubscribed from comments'')
                         (r\<lparr>isSubscribed := False\<rparr>)))
          else
            (case insert_subscription (manga_id r) (chapterNumber r) (u_id u) st of
               Inl e \<Rightarrow> (st, toast_reader (Toast_error ''Failed to update subscription'') r)
             | Inr st' \<Rightarrow>
                 (st', toast_reader (Toast_success ''Subscribed to comments'')
                         (r\<lparr>isSubscribed := True\<rparr>))))"

text \<open>\<open>handleReport\<close>.\<close>

definition handleReport :: "store \<Rightarrow> reader \<Rightarrow> store \<times> reader" where
  "handleReport st r =
     (case user r of
        None \<Rightarrow> (st, toast_reader (Toast_error ''Please login to report issues'') r)
      | Some u \<Rightarrow>
          (case insert_manga_report (manga_id r) (chapterNumber r) (u_id u) (reportType r)
                  (Some (reportDescription r)) st of
             Inl e \<Rightarrow> (st, toast_reader (Toast_error ''Failed to submit report'') r)
           | Inr st' \<Rightarrow>
               (st', (toast_reader (Toast_success ''Report submitted successfully'') r)
                       \<lparr>showReportModal := False, reportDescription := []\<rparr>)))"

section \<open>The metadata lookup\<close>

text \<open>
  One entry of the answer of the metadata service (\<open>JikanMangaResponse\<close>), with the genres
  and authors reduced to their names and the image to \<open>images.jpg.large_image_url\<close>.
  \<open>synopsis\<close> and \<open>score\<close> may be null.  The answer to \<open>axios.get\<close> is a failed request
  (the promise rejects) or the list \<open>response.data.data\<close>.
\<close>

record jikan_manga =
  j_title :: string
  j_synopsis :: "string option"
  j_genres :: "string list"
  j_status :: string
  j_score :: "real option"
  j_large_image_url :: string
  j_authors :: "string list"

datatype api_response = Request_failed | Response "jikan_manga list"

datatype manga_status = Ongoing | Completed

record manga_info =
  mi_title :: string
  mi_description :: "string option"
  mi_genres :: "string list"
  mi_status :: manga_status
  mi_rating :: real
  mi_cover :: string
  mi_author :: string

text \<open>
  \<open>toLowerCase\<close> on the letters \<open>A\<close> to \<open>Z\<close>.  No other character lower-cases to a letter
  of \<open>publishing\<close>, so the comparison below is the one the source makes.
\<close>

definition toLowerCase :: "string \<Rightarrow> string" where
  "toLowerCase s =
     map (\<lambda>c. case map_of (zip ''ABCDEFGHIJKLMNOPQRSTUVWXYZ'' ''abcdefghijklmnopqrstuvwxyz'') c of
                 None \<Rightarrow> c
               | Some l \<Rightarrow> l) s"

text \<open>\<open>searchManga\<close>; \<open>api\<close> is the metadata service, from the query to its answer.\<close>

definition searchManga :: "(string \<Rightarrow> api_response) \<Rightarrow> string \<Rightarrow> manga_info option" where
  "searchManga api t =
     (case api t of
        Request_failed \<Rightarrow> None
      | Response [] \<Rightarrow> None
      | Response (manga # _) \<Rightarrow>
          Some \<lparr>mi_title = j_title manga,
                mi_description = j_synopsis manga,
                mi_genres = j_genres manga,
                mi_status = (if toLowerCase (j_status manga) = ''publishing'' then Ongoing
                             else Completed),
                mi_rating = (case j_score manga of None \<Rightarrow> 0 | Some x \<Rightarrow> x),
                mi_cover = j_large_image_url manga,
                mi_author = (case j_authors manga of
                               [] \<Rightarrow> ''Unknown''
                             | a # _ \<Rightarrow> if a = [] then ''Unknown'' else a)\<rparr>)"

section \<open>The administration panel\<close>

text \<open>\<open>MangaForm\<close>; the cover is the chosen file, if any, by its name.\<close>

record manga_form =
  title :: string
  description :: string
  author :: string
  status :: manga_status
  cover :: "string option"
  genres :: "string list"
  rating :: real

definition initialForm :: manga_form where
  "initialForm =
     \<lparr>title = [], description = [], author = [], status = Ongoing, cover = None,
      genres = [], rating = 0\<rparr>"

record admin_panel =
  form :: manga_form
  searching :: bool
  notifications :: "admin_notification list"
  unreadCount :: int
  admin_toasts :: "toast list"

definition toast_admin :: "toast \<Rightarrow> admin_panel \<Rightarrow> admin_panel" where
  "toast_admin t a = a\<lparr>admin_toasts := admin_toasts a @ [t]\<rparr>"

text \<open>
  \<open>handleFetchInfo\<close>.  \<open>searchManga\<close> does not throw, so the \<open>catch\<close> of the source has no
  case here; \<open>searching\<close> is set on the way in and cleared by the \<open>finally\<close>.  In
  \<open>a || b\<close> an empty or missing text and the number 0 give \<open>b\<close>; a list of genres
  never does.
\<close>

definition handleFetchInfo :: "(string \<Rightarrow> api_response) \<Rightarrow> admin_panel \<Rightarrow> admin_panel" where
  "handleFetchInfo api a =
     (if title (form a) = [] then toast_admin (Toast_error ''Please enter a title to search'') a
      else
        (case searchManga api (title (form a)) of
           Some mangaData \<Rightarrow>
             (toast_admin (Toast_success ''Manga information fetched successfully'')
                (a\<lparr>form := (form a)
                     \<lparr>description :=
                        (case mi_description mangaData of
                           None \<Rightarrow> description (form a)
                         | Some d \<Rightarrow> if d = [] then description (form a) else d),
                      author := (if mi_author mangaData = [] then author (form a)
                                 else mi_author mangaData),
                      status := mi_status mangaData,
                      genres := mi_genres mangaData,
                      rating := (if mi_rating mangaData = 0 then 0
                                 else mi_rating mangaData)\<rparr>\<rparr>))
               \<lparr>searching := False\<rparr>
         | None \<Rightarrow>
             (toast_admin (Toast_error ''No manga information found'') a)
               \<lparr>searching := False\<rparr>))"

text \<open>\<open>markNotificationAsRead\<close>.\<close>

definition markNotificationAsRead :: "uuid \<Rightarrow> store \<Rightarrow> admin_panel \<Rightarrow> store \<times> admin_panel" where
  "markNotificationAsRead nid st a =
     (case update_admin_notification_read nid st of
        Inl e \<Rightarrow> (st, toast_admin (Toast_error ''Failed to mark notification as read'') a)
      | Inr st' \<Rightarrow>
          (st', a\<lparr>notifications :=
                    map (\<lambda>n. if an_id n = nid then n\<lparr>an_read := True\<rparr> else n) (notifications a),
                  unreadCount := max 0 (unreadCount a - 1)\<rparr>))"

text \<open>
  \<open>loadReports\<close>, as far as the toasts go: \<open>answered\<close> tells whether its request is
  answered without an error.  The listing it fills is not among the fields above.
\<close>

definition loadReports :: "bool \<Rightarrow> admin_panel \<Rightarrow> admin_panel" where
  "loadReports answered a =
     (if answered then a else toast_admin (Toast_error ''Failed to load reports'') a)"

text \<open>
  \<open>handleReportStatus\<close>; \<open>now\<close> is the value of \<open>new Date().toISOString()\<close>, and
  \<open>answered\<close> is passed to the \<open>loadReports\<close> that follows the update.
\<close>

definition handleReportStatus ::
  "uuid \<Rightarrow> string \<Rightarrow> timestamp \<Rightarrow> bool \<Rightarrow> store \<Rightarrow> admin_panel \<Rightarrow> store \<times> admin_panel" where
  "handleReportStatus reportId s now answered st a =
     (case update_manga_report reportId s (if s = ''resolved'' then Some now else None) st of
        Inl e \<Rightarrow> (st, toast_admin (Toast_error ''Failed to update report'') a)
      | Inr st' \<Rightarrow>
          (st', toast_admin (Toast_success ''Report status updated'') (loadReports answered a)))"

section \<open>The authentication state of the client\<close>

text \<open>\<open>AuthState\<close> of \<open>store.ts\<close>: the fields \<open>user\<close> and \<open>loading\<close>.\<close>

record auth_state =
  as_user :: "app_user option"
  as_loading :: bool

text \<open>\<open>email?.split('@')[0]\<close>.\<close>

definition email_name :: "string option \<Rightarrow> string option" where
  "email_name email = map_option (takeWhile (\<lambda>c. c \<noteq> CHR ''@'')) email"

text \<open>
  The \<open>catch\<close> and \<open>finally\<close> of \<open>fetchUserProfile\<close>: the user is cleared, the session is
  signed out when the error is one of the authentication client, and \<open>loading\<close> ends.
\<close>

definition fetch_failed :: "store_error \<Rightarrow> store \<Rightarrow> auth_state \<Rightarrow> store \<times> auth_state" where
  "fetch_failed e st a =
     (if e = Auth_error then signOut st else st, a\<lparr>as_user := None, as_loading := False\<rparr>)"

definition app_user_of :: "uuid \<Rightarrow> principal \<Rightarrow> profile \<Rightarrow> app_user" where
  "app_user_of uid au p =
     \<lparr>u_id = uid, u_email = pr_email au, u_isAdmin = p_is_admin p,
      u_username = p_username p, u_avatar_url = p_avatar_url p\<rparr>"

text \<open>\<open>fetchUserProfile\<close>.\<close>

definition fetchUserProfile :: "uuid \<Rightarrow> store \<Rightarrow> auth_state \<Rightarrow> store \<times> auth_state" where
  "fetchUserProfile userId st a =
     (case getUser st of
        Inl authError \<Rightarrow> fetch_failed authError st a
      | Inr None \<Rightarrow> fetch_failed No_authenticated_user st a
      | Inr (Some authUser) \<Rightarrow>
          (case select_profile userId st of
             Inl profileError \<Rightarrow> fetch_failed profileError st a
           | Inr (Some p) \<Rightarrow>
               (st, a\<lparr>as_user := Some (app_user_of userId authUser p), as_loading := False\<rparr>)
           | Inr None \<Rightarrow>
               (case insert_profile userId (email_name (pr_email authUser)) False st of
                  Inl insertError \<Rightarrow> fetch_failed insertError st a
                | Inr st1 \<Rightarrow>
                    (case select_profile_single userId st1 of
                       Inl fetchError \<Rightarrow> fetch_failed fetchError st1 a
                     | Inr newProfile \<Rightarrow>
                         (st1, a\<lparr>as_user := Some (app_user_of userId authUser newProfile),
                                as_loading := False\<rparr>)))))"

section \<open>Example states\<close>

text \<open>
  An empty store that answers requests, and a store in which \<open>A\<close> and \<open>B\<close> are
  subscribed to chapter 3 of manga \<open>X\<close> and \<open>C\<close> to chapter 4; the latter with \<open>A\<close>
  signed in, and with \<open>B\<close> signed in.
\<close>

definition store0 :: store where
  "store0 =
     \<lparr>comments = [], comment_subscriptions = [], comment_notifications = [],
      manga_reports = [], admin_notifications = [], profiles = [], notified = [],
      json_text = (\<lambda>j. ''{...}''),
      uuid_source = (\<lambda>n. replicate (Suc n) CHR ''u''), uuid_drawn = 0, clock = 7,
      session = None, online = True, valid_status = True\<rparr>"

definition store1 :: store where
  "store1 =
     store0\<lparr>comment_subscriptions :=
       [\<lparr>cs_user_id = ''A'', cs_manga_id = ''X'', cs_chapter = 3, cs_created_at = 1\<rparr>,
        \<lparr>cs_user_id = ''B'', cs_manga_id = ''X'', cs_chapter = 3, cs_created_at = 2\<rparr>,
        \<lparr>cs_user_id = ''C'', cs_manga_id = ''X'', cs_chapter = 4, cs_created_at = 3\<rparr>]\<rparr>"

definition storeA :: store where
  "storeA = store1\<lparr>session := Some \<lparr>pr_id = ''A'', pr_email = Some ''a@x.org''\<rparr>\<rparr>"

definition storeB :: store where
  "storeB = store1\<lparr>session := Some \<lparr>pr_id = ''B'', pr_email = Some ''b@x.org''\<rparr>\<rparr>"

text \<open>
  A reader on chapter 3 of \<open>X\<close> with two pages and nobody signed in; the same reader
  with \<open>A\<close> signed in, with \<open>A\<close> signed in and the draft \<open>" hi "\<close>, and with \<open>D\<close>
  signed in and shown as subscribed.  The reader as it is mounted, before anything is
  loaded.
\<close>

definition reader0 :: reader where
  "reader0 =
     \<lparr>manga_id = ''X'', user = None, chapterNumber = 3, newComment = [],
      pages = [''p1.jpg'', ''p2.jpg''], currentPage = 0, loading = False,
      readingMode = Cascade, isSubscribed = False,
      showReportModal = False, reportType = ''unreadable'', reportDescription = [],
      toasts = [], listener_pages = [''p1.jpg'', ''p2.jpg'']\<rparr>"

definition userA :: app_user where
  "userA = \<lparr>u_id = ''A'', u_email = Some ''a@x.org'', u_isAdmin = False,
             u_username = Some ''a'', u_avatar_url = None\<rparr>"

definition userD :: app_user where
  "userD = \<lparr>u_id = ''D'', u_email = Some ''d@x.org'', u_isAdmin = False,
             u_username = Some ''d'', u_avatar_url = None\<rparr>"

definition readerA :: reader where
  "readerA = reader0\<lparr>user := Some userA\<rparr>"

definition readerB :: reader where
  "readerB = readerA\<lparr>newComment := [32, 104, 105, 32]\<rparr>"

definition readerD :: reader where
  "readerD = reader0\<lparr>user := Some userD, isSubscribed := True\<rparr>"

definition reader_mounted :: reader where
  "reader_mounted = reader0\<lparr>pages := [], loading := True, listener_pages := []\<rparr>"

text \<open>
  The first load fails, the reader is switched to paginated mode, and the load that the
  switch starts succeeds.
\<close>

definition reader_reloaded :: reader where
  "reader_reloaded =
     toggleReadingMode (Some [''p1.jpg'', ''p2.jpg'']) (effect None reader_mounted)"

text \<open>
  A store in which the administrator \<open>Adm\<close> is signed in, and one in which \<open>C\<close>, who is
  no administrator, is; \<open>C\<close> in the reader, with a description typed in.
\<close>

definition store_admin :: store where
  "store_admin =
     store0\<lparr>profiles :=
       [\<lparr>p_user_id = ''Adm'', p_username = Some ''root'', p_avatar_url = None,
         p_is_admin = True, p_created_at = 1, p_updated_at = 1\<rparr>,
        \<lparr>p_user_id = ''C'', p_username = Some ''c'', p_avatar_url = None,
         p_is_admin = False, p_created_at = 1, p_updated_at = 1\<rparr>],
       session := Some \<lparr>pr_id = ''Adm'', pr_email = Some ''root@x.org''\<rparr>\<rparr>"

definition storeC :: store where
  "storeC = store_admin\<lparr>session := Some \<lparr>pr_id = ''C'', pr_email = Some ''c@x.org''\<rparr>\<rparr>"

definition userC :: app_user where
  "userC = \<lparr>u_id = ''C'', u_email = Some ''c@x.org'', u_isAdmin = False,
             u_username = Some ''c'', u_avatar_url = None\<rparr>"

definition readerC :: reader where
  "readerC = reader0\<lparr>manga_id := ''Y'', chapterNumber := 1, user := Some userC,
               reportType := ''missing'', reportDescription := [112, 46]\<rparr>"

text \<open>
  A store with one pending report and one unread notification for it, and the
  administration panel as it is first rendered.
\<close>

definition store2 :: store where
  "store2 =
     store0\<lparr>manga_reports :=
       [\<lparr>mr_id = ''r1'', mr_manga_id = ''Y'', mr_chapter = 1, mr_user_id = ''C'',
         mr_issue_type = ''missing'', mr_description = None, mr_status = ''pending'',
         mr_resolved_at = None, mr_created_at = 5\<rparr>],
       admin_notifications :=
       [\<lparr>an_id = ''n1'', an_type = ''manga_report'',
         an_data = JObject [(''report_id'', JString (utf16 ''r1'')),
                      (''manga_id'', JString (utf16 ''Y'')),
                      (''chapter'', JNumber 1), (''issue_type'', JString (utf16 ''missing'')),
                      (''description'', JNull)],
         an_read = False, an_created_at = 5\<rparr>]\<rparr>"

definition admin0 :: admin_panel where
  "admin0 =
     \<lparr>form = initialForm, searching = False, notifications = [], unreadCount = 0,
      admin_toasts = []\<rparr>"

text \<open>The panel after it has loaded the notifications of \<open>store2\<close>.\<close>

definition admin2 :: admin_panel where
  "admin2 = admin0\<lparr>notifications := admin_notifications store2, unreadCount := 1\<rparr>"

text \<open>
  The panel with a title typed in, a metadata service that is down, and one that finds
  nothing.
\<close>

definition admin1 :: admin_panel where
  "admin1 = admin0\<lparr>form := initialForm\<lparr>title := ''Berserk'', description := ''draft''\<rparr>\<rparr>"

definition api_down :: "string \<Rightarrow> api_response" where
  "api_down t = Request_failed"

definition api_empty :: "string \<Rightarrow> api_response" where
  "api_empty t = Response []"

text \<open>
  A store with the profile of \<open>U1\<close>, whose username is \<open>alice\<close>, and a session of
  \<open>U2\<close>, whose email is \<open>alice@b.org\<close>; the same store with the session of \<open>U1\<close>, and
  with a session of \<open>U3\<close>, whose email is \<open>bob@b.org\<close>.  The client before the profile is
  fetched.
\<close>

definition store3 :: store where
  "store3 =
     store0\<lparr>profiles :=
       [\<lparr>p_user_id = ''U1'', p_username = Some ''alice'', p_avatar_url = None,
         p_is_admin = False, p_created_at = 2, p_updated_at = 2\<rparr>],
       session := Some \<lparr>pr_id = ''U2'', pr_email = Some ''alice@b.org''\<rparr>\<rparr>"

definition store4 :: store where
  "store4 = store3\<lparr>session := Some \<lparr>pr_id = ''U1'', pr_email = Some ''alice@a.org''\<rparr>\<rparr>"

definition store5 :: store where
  "store5 = store3\<lparr>session := Some \<lparr>pr_id = ''U3'', pr_email = Some ''bob@b.org''\<rparr>\<rparr>"

definition auth0 :: auth_state where
  "auth0 = \<lparr>as_user = None, as_loading = True\<rparr>"

section \<open>The fan-out of a comment to its subscribers\<close>

text \<open>
  What the trigger selects on an insert the policy on \<open>comments\<close> admits: the rows it
  sees are the author's own, and those its \<open>WHERE\<close> excludes.
\<close>

lemma own_rows_excluded:
  assumes "auth_uid st = Some u"
  shows "filter (\<lambda>cs. cs_manga_id cs = m \<and> cs_chapter cs = ch \<and> cs_user_id cs \<noteq> u)
           (visible_subscriptions st) = []"
  using assms by (auto simp: visible_subscriptions_def filter_empty_conv)

lemma notify_comment_subscribers_unchanged:
  "notify_comment_subscribers new st = Inr st' \<Longrightarrow> st' = st"
  by (simp add: notify_comment_subscribers_def split: if_splits)

text \<open>No insert of a comment adds a notification.\<close>

lemma insert_comment_no_notification:
  assumes "insert_comment m ch u email content st = Inr st'"
  shows "comment_notifications st' = comment_notifications st"
proof (cases email)
  case None
  with assms show ?thesis
    by (simp add: insert_comment_def split: if_splits)
next
  case (Some e)
  let ?new = "\<lparr>c_id = uuid_source st (uuid_drawn st), c_manga_id = m, c_chapter = ch,
               c_user_id = u, c_user_email = e, c_content = content, c_created_at = clock st\<rparr>"
  let ?st2 = "st\<lparr>uuid_drawn := Suc (uuid_drawn st), comments := comments st @ [?new]\<rparr>"
  have "notify_comment_subscribers ?new ?st2 = Inr st'"
    using assms Some
    by (simp add: insert_comment_def gen_random_uuid_def Let_def split: if_splits)
  then have "st' = ?st2"
    by (rule notify_comment_subscribers_unchanged)
  then show ?thesis by simp
qed

lemma insert_comment_accepted:
  assumes "online st" and "auth_uid st = Some u" and "int4 ch"
    and "text_ok (utf16 e)" and "text_ok content"
  shows "insert_comment m ch u (Some e) content st =
           Inr (st\<lparr>uuid_drawn := Suc (uuid_drawn st),
                  comments := comments st @
                    [\<lparr>c_id = uuid_source st (uuid_drawn st), c_manga_id = m, c_chapter = ch,
                      c_user_id = u, c_user_email = e, c_content = content,
                      c_created_at = clock st\<rparr>]\<rparr>)"
proof -
  let ?new = "\<lparr>c_id = uuid_source st (uuid_drawn st), c_manga_id = m, c_chapter = ch,
               c_user_id = u, c_user_email = e, c_content = content, c_created_at = clock st\<rparr>"
  let ?st2 = "st\<lparr>uuid_drawn := Suc (uuid_drawn st), comments := comments st @ [?new]\<rparr>"
  have "auth_uid ?st2 = Some u"
    using assms(2) by (simp add: auth_uid_def)
  then have "filter (\<lambda>cs. cs_manga_id cs = m \<and> cs_chapter cs = ch \<and> cs_user_id cs \<noteq> u)
           (visible_subscriptions ?st2) = []"
    by (rule own_rows_excluded)
  then have "notify_comment_subscribers ?new ?st2 = Inr ?st2"
    by (simp add: notify_comment_subscribers_def)
  then show ?thesis
    using assms by (simp add: insert_comment_def gen_random_uuid_def Let_def)
qed

text \<open>
  C1.  A comment inserted into the thread of a manga and chapter is to give one unread
  notification to every subscriber of the thread but the author.  Here \<open>A\<close> and \<open>B\<close> are
  subscribed to chapter 3 of \<open>X\<close> and \<open>B\<close> posts there: the comment is stored, and no
  notification is.
\<close>

theorem comment_fan_out_missing:
  "\<exists>st'. insert_comment ''X'' 3 ''B'' (Some ''b@x.org'') [104, 105] storeB = Inr st'
     \<and> map (\<lambda>c. (c_manga_id c, c_chapter c, c_user_id c, c_content c)) (comments st')
         = [(''X'', 3, ''B'', [104, 105])]
     \<and> map subscription_key (comment_subscriptions st')
         = [(''A'', ''X'', 3), (''B'', ''X'', 3), (''C'', ''X'', 4)]
     \<and> comment_notifications st' = []"
  by (simp add: insert_comment_def notify_comment_subscribers_def visible_subscriptions_def
      auth_uid_def int4_def utf16_def gen_random_uuid_def Let_def subscription_key_def
      storeB_def store1_def store0_def)

section \<open>Subscribing and unsubscribing\<close>

lemma key_occurs_once:
  "distinct (map f xs) \<Longrightarrow> k \<in> set (map f xs) \<Longrightarrow> length (filter (\<lambda>x. f x = k) xs) = 1"
proof (induction xs)
  case Nil
  then show ?case by simp
next
  case (Cons x xs)
  show ?case
  proof (cases "f x = k")
    case True
    then have "k \<notin> set (map f xs)" using Cons.prems(1) by auto
    then have "filter (\<lambda>x. f x = k) xs = []" by (auto simp: filter_empty_conv)
    with True show ?thesis by simp
  next
    case False
    then have "k \<in> set (map f xs)" using Cons.prems(2) by auto
    with Cons.IH Cons.prems(1) False show ?thesis by simp
  qed
qed

lemma filter_none:
  "(\<And>x. x \<in> set xs \<Longrightarrow> P x) \<Longrightarrow> filter P xs = xs"
  by (induction xs) auto

text \<open>The two writes of the client keep the primary key of the subscriptions.\<close>

lemma insert_subscription_keeps_key:
  assumes "distinct (map subscription_key (comment_subscriptions st))"
    and "insert_subscription m ch u st = Inr st'"
  shows "distinct (map subscription_key (comment_subscriptions st'))"
proof -
  have fresh: "(u, m, ch) \<notin> set (map subscription_key (comment_subscriptions st))"
    using assms(2) by (auto simp: insert_subscription_def split: if_splits)
  have "comment_subscriptions st' = comment_subscriptions st @
      [\<lparr>cs_user_id = u, cs_manga_id = m, cs_chapter = ch, cs_created_at = clock st\<rparr>]"
    using assms(2) by (auto simp: insert_subscription_def split: if_splits)
  then show ?thesis
    using assms(1) fresh by (simp add: subscription_key_def)
qed

lemma delete_subscription_keeps_key:
  assumes "distinct (map subscription_key (comment_subscriptions st))"
    and "delete_subscription m ch u st = Inr st'"
  shows "distinct (map subscription_key (comment_subscriptions st'))"
proof -
  have "comment_subscriptions st' =
      filter (\<lambda>cs. \<not> (cs_manga_id cs = m \<and> cs_chapter cs = ch \<and> cs_user_id cs = u))
        (comment_subscriptions st)"
    using assms(2) by (auto simp: delete_subscription_def split: if_splits)
  then show ?thesis
    using assms(1) by (simp add: distinct_map_filter)
qed

text \<open>
  C2.  Subscribing when the row for \<open>(user, manga, chapter)\<close> exists already: the insert
  collides with the primary key, and \<open>toggleSubscription\<close> reports the failure as it
  reports every failure (the error toast, \<open>isSubscribed\<close> as it was).  The store is
  unchanged, so exactly one row for the tuple exists afterwards.  The example shows that
  the collision is not taken as being subscribed.
\<close>

theorem subscribe_existing_rejected:
  assumes "user r = Some u" and "\<not> isSubscribed r" and "online st"
    and "distinct (map subscription_key (comment_subscriptions st))"
    and "(u_id u, manga_id r, chapterNumber r) \<in> set (map subscription_key (comment_subscriptions st))"
  shows "toggleSubscription st r =
           (st, r\<lparr>toasts := toasts r @ [Toast_error ''Failed to update subscription'']\<rparr>)
       \<and> length (filter (\<lambda>cs. subscription_key cs = (u_id u, manga_id r, chapterNumber r))
                   (comment_subscriptions (fst (toggleSubscription st r)))) = 1"
proof -
  have "insert_subscription (manga_id r) (chapterNumber r) (u_id u) st = Inl Unique_violation"
    using assms(3,5) by (simp add: insert_subscription_def)
  then have t: "toggleSubscription st r =
           (st, r\<lparr>toasts := toasts r @ [Toast_error ''Failed to update subscription'']\<rparr>)"
    using assms(1,2) by (simp add: toggleSubscription_def toast_reader_def)
  have "length (filter (\<lambda>cs. subscription_key cs = (u_id u, manga_id r, chapterNumber r))
                   (comment_subscriptions st)) = 1"
    using assms(4,5) by (rule key_occurs_once)
  with t show ?thesis by simp
qed

theorem subscribe_existing_rejected_witness:
  "user readerA = Some userA \<and> \<not> isSubscribed readerA \<and> online store1
   \<and> distinct (map subscription_key (comment_subscriptions store1))
   \<and> (u_id userA, manga_id readerA, chapterNumber readerA)
        \<in> set (map subscription_key (comment_subscriptions store1))
   \<and> toggleSubscription store1 readerA =
           (store1, readerA\<lparr>toasts := toasts readerA @ [Toast_error ''Failed to update subscription'']\<rparr>)
   \<and> length (filter (\<lambda>cs. subscription_key cs = (u_id userA, manga_id readerA, chapterNumber readerA))
                   (comment_subscriptions (fst (toggleSubscription store1 readerA)))) = 1"
proof -
  have h1: "user readerA = Some userA" and h2: "\<not> isSubscribed readerA"
    by (simp_all add: readerA_def reader0_def)
  have h3: "online store1"
    by (simp add: store1_def store0_def)
  have h4: "distinct (map subscription_key (comment_subscriptions store1))"
    by (simp add: store1_def store0_def subscription_key_def)
  have h5: "(u_id userA, manga_id readerA, chapterNumber readerA)
        \<in> set (map subscription_key (comment_subscriptions store1))"
    by (simp add: store1_def store0_def subscription_key_def readerA_def reader0_def userA_def)
  show ?thesis
    using h1 h2 h3 h4 h5 subscribe_existing_rejected [OF h1 h2 h3 h4 h5, THEN conjunct1]
      subscribe_existing_rejected [OF h1 h2 h3 h4 h5, THEN conjunct2]
    by (intro conjI)
qed

theorem subscribe_existing_counterexample:
  "(''A'', ''X'', 3) \<in> set (map subscription_key (comment_subscriptions store1))
   \<and> user readerA = Some userA \<and> \<not> isSubscribed readerA \<and> online store1
   \<and> toasts (snd (toggleSubscription store1 readerA)) = [Toast_error ''Failed to update subscription'']
   \<and> \<not> isSubscribed (snd (toggleSubscription store1 readerA))"
  by (simp add: toggleSubscription_def insert_subscription_def subscription_key_def
      toast_reader_def readerA_def reader0_def userA_def store1_def store0_def)

text \<open>
  C5.  Unsubscribing when no row for \<open>(user, manga, chapter)\<close> exists: the delete matches
  nothing, no error is reported, and the store is as before.
\<close>

theorem unsubscribe_absent_noop:
  assumes "user r = Some u" and "isSubscribed r" and "online st"
    and "(u_id u, manga_id r, chapterNumber r) \<notin> set (map subscription_key (comment_subscriptions st))"
  shows "toggleSubscription st r =
           (st, r\<lparr>isSubscribed := False,
                  toasts := toasts r @ [Toast_success ''Unsubscribed from comments'']\<rparr>)"
proof -
  have "filter (\<lambda>cs. \<not> (cs_manga_id cs = manga_id r \<and> cs_chapter cs = chapterNumber r
                          \<and> cs_user_id cs = u_id u)) (comment_subscriptions st)
        = comment_subscriptions st"
  proof (rule filter_none)
    fix cs assume "cs \<in> set (comment_subscriptions st)"
    then have "subscription_key cs \<in> set (map subscription_key (comment_subscriptions st))"
      by simp
    with assms(4) have "subscription_key cs \<noteq> (u_id u, manga_id r, chapterNumber r)"
      by metis
    then show "\<not> (cs_manga_id cs = manga_id r \<and> cs_chapter cs = chapterNumber r
                          \<and> cs_user_id cs = u_id u)"
      by (auto simp: subscription_key_def)
  qed
  then have "delete_subscription (manga_id r) (chapterNumber r) (u_id u) st = Inr st"
    using assms(3) by (simp add: delete_subscription_def)
  then show ?thesis
    using assms(1,2) by (simp add: toggleSubscription_def toast_reader_def)
qed

theorem unsubscribe_absent_noop_witness:
  "user readerD = Some userD \<and> isSubscribed readerD \<and> online store1
   \<and> (u_id userD, manga_id readerD, chapterNumber readerD)
        \<notin> set (map subscription_key (comment_subscriptions store1))
   \<and> toggleSubscription store1 readerD =
           (store1, readerD\<lparr>isSubscribed := False,
                  toasts := toasts readerD @ [Toast_success ''Unsubscribed from comments'']\<rparr>)"
proof -
  have h1: "user readerD = Some userD" and h2: "isSubscribed readerD"
    by (simp_all add: readerD_def reader0_def)
  have h3: "online store1"
    by (simp add: store1_def store0_def)
  have h4: "(u_id userD, manga_id readerD, chapterNumber readerD)
        \<notin> set (map subscription_key (comment_subscriptions store1))"
    by (simp add: store1_def store0_def subscription_key_def readerD_def reader0_def userD_def)
  show ?thesis
    using h1 h2 h3 h4 unsubscribe_absent_noop [OF h1 h2 h3 h4]
    by (intro conjI)
qed

section \<open>Reports and the notification of administrators\<close>


text \<open>
  A reporter who is no administrator: the trigger's row is refused, the insert is undone,
  and \<open>handleReport\<close> reports the failure.
\<close>

lemma insert_manga_report_refused:
  assumes "\<not> is_admin st"
  shows "\<exists>e. insert_manga_report m ch u issue descr st = Inl e"
proof -
  have "notify_admins_on_report new st2 = Inl Policy_violation"
    if "profiles st2 = profiles st" and "session st2 = session st" for new st2
    using assms that by (simp add: notify_admins_on_report_def is_admin_def auth_uid_def)
  then show ?thesis
    by (simp add: insert_manga_report_def gen_random_uuid_def Let_def)
qed

lemma handleReport_refused:
  assumes "user r = Some u" and "\<not> is_admin st"
  shows "handleReport st r = (st, toast_reader (Toast_error ''Failed to submit report'') r)"
proof -
  have "\<exists>e. insert_manga_report (manga_id r) (chapterNumber r) (u_id u) (reportType r)
      (Some (reportDescription r)) st = Inl e"
    using assms(2) by (rule insert_manga_report_refused)
  then obtain e where "insert_manga_report (manga_id r) (chapterNumber r) (u_id u) (reportType r)
      (Some (reportDescription r)) st = Inl e"
    by (elim exE)
  then show ?thesis
    using assms(1) by (simp add: handleReport_def)
qed

lemma handleReport_refused_example:
  "handleReport storeC readerC =
     (storeC, readerC\<lparr>toasts := [Toast_error ''Failed to submit report'']\<rparr>)"
  by (simp add: handleReport_def insert_manga_report_def notify_admins_on_report_def
      is_admin_def auth_uid_def int4_def utf16_def gen_random_uuid_def Let_def toast_reader_def
      storeC_def store_admin_def store0_def readerC_def reader0_def userC_def)

lemma handleReport_anonymous:
  "user r = None \<Longrightarrow> fst (handleReport st r) = st"
  by (simp add: handleReport_def)

text \<open>When the insert of a report goes through.\<close>

lemma insert_manga_report_accepted_iff:
  "(\<exists>st'. insert_manga_report m ch u issue descr st = Inr st') \<longleftrightarrow>
     online st \<and> is_admin st \<and> int4 ch \<and> text_ok (utf16 issue)
     \<and> (case descr of None \<Rightarrow> True | Some d \<Rightarrow> text_ok d)
     \<and> length (json_text st
           (JObject [(''report_id'', JString (utf16 (uuid_source st (uuid_drawn st)))),
                     (''manga_id'', JString (utf16 m)),
                     (''chapter'', JNumber ch),
                     (''issue_type'', JString (utf16 issue)),
                     (''description'', (case descr of None \<Rightarrow> JNull | Some d \<Rightarrow> JString d))]))
         < 8000"
  by (auto simp: insert_manga_report_def notify_admins_on_report_def is_admin_def auth_uid_def
      gen_random_uuid_def Let_def report_payload_def)



lemma insert_manga_report_example:
  "\<exists>st'. insert_manga_report ''Y'' 1 ''Adm'' ''missing'' (Some [112, 46]) store_admin = Inr st'
     \<and> manga_reports st' =
         [\<lparr>mr_id = ''u'', mr_manga_id = ''Y'', mr_chapter = 1, mr_user_id = ''Adm'',
           mr_issue_type = ''missing'', mr_description = Some [112, 46],
           mr_status = ''pending'', mr_resolved_at = None, mr_created_at = 7\<rparr>]
     \<and> admin_notifications st' =
         [\<lparr>an_id = ''uu'', an_type = ''manga_report'',
           an_data = JObject [(''report_id'', JString [117]), (''manga_id'', JString [89]),
                       (''chapter'', JNumber 1),
                       (''issue_type'', JString [109, 105, 115, 115, 105, 110, 103]),
                       (''description'', JString [112, 46])],
           an_read = False, an_created_at = 7\<rparr>]
     \<and> notified st' = [(''admin_report_notification'', ''{...}'')]"
  by (simp add: insert_manga_report_def notify_admins_on_report_def is_admin_def auth_uid_def
      int4_def utf16_def gen_random_uuid_def Let_def report_payload_def
      store_admin_def store0_def)

section \<open>The status of a report and its resolution time\<close>

lemma update_manga_report_ok:
  assumes "online st" and "valid_status st \<longrightarrow> s \<in> set statuses"
  shows "update_manga_report rid s ra st =
           Inr (st\<lparr>manga_reports :=
                map (\<lambda>r. if mr_id r = rid then r\<lparr>mr_status := s, mr_resolved_at := ra\<rparr> else r)
                  (manga_reports st)\<rparr>)"
proof (cases "valid_status st")
  case True
  with assms(2) have "s \<in> set statuses" by simp
  with assms(1) show ?thesis by (simp add: update_manga_report_def)
next
  case False
  with assms(1) show ?thesis by (simp add: update_manga_report_def)
qed



lemma handleReportStatus_valid_status:
  "valid_status (fst (handleReportStatus rid s now ld st a)) = valid_status st"
  by (simp add: handleReportStatus_def update_manga_report_def)




lemma report_status_example:
  "map (\<lambda>r. (mr_status r, mr_resolved_at r)) (manga_reports store2) = [(''pending'', None)]
   \<and> map (\<lambda>r. (mr_status r, mr_resolved_at r))
        (manga_reports (fst (handleReportStatus ''r1'' ''in_progress'' 10 True store2 admin0)))
      = [(''in_progress'', None)]
   \<and> map (\<lambda>r. (mr_status r, mr_resolved_at r))
        (manga_reports (fst (handleReportStatus ''r1'' ''resolved'' 11 False
                               (fst (handleReportStatus ''r1'' ''in_progress'' 10 True store2 admin0)) admin0)))
      = [(''resolved'', Some 11)]"
  by (simp add: handleReportStatus_def update_manga_report_def statuses_def store2_def store0_def)


lemma handleReportStatus_toasts:
  assumes "online st" and "valid_status st \<longrightarrow> s \<in> set statuses"
  shows "admin_toasts (snd (handleReportStatus rid s now ld st a)) =
           admin_toasts a
           @ (if ld then [] else [Toast_error ''Failed to load reports''])
           @ [Toast_success ''Report status updated'']"
  by (simp add: handleReportStatus_def update_manga_report_ok [OF assms] loadReports_def
      toast_admin_def)

section \<open>Posting a comment\<close>

lemma insert_comment_row:
  assumes "insert_comment m ch u email content st = Inr st'"
  shows "\<exists>new. comments st' = comments st @ [new]"
proof (cases email)
  case None
  with assms show ?thesis
    by (simp add: insert_comment_def split: if_splits)
next
  case (Some e)
  let ?new = "\<lparr>c_id = uuid_source st (uuid_drawn st), c_manga_id = m, c_chapter = ch,
               c_user_id = u, c_user_email = e, c_content = content, c_created_at = clock st\<rparr>"
  let ?st2 = "st\<lparr>uuid_drawn := Suc (uuid_drawn st), comments := comments st @ [?new]\<rparr>"
  have "notify_comment_subscribers ?new ?st2 = Inr st'"
    using assms Some
    by (simp add: insert_comment_def gen_random_uuid_def Let_def split: if_splits)
  then have "st' = ?st2"
    by (rule notify_comment_subscribers_unchanged)
  then have "comments st' = comments st @ [?new]" by simp
  then show ?thesis by (rule exI)
qed

lemma insert_comment_signed_out:
  "session st = None \<Longrightarrow> \<exists>e. insert_comment m ch u email content st = Inl e"
  by (simp add: insert_comment_def auth_uid_def)

lemma handleComment_rejected:
  assumes "user r = None \<or> session st = None \<or> trim (newComment r) = []"
  shows "fst (handleComment st r) = st
       \<and> newComment (snd (handleComment st r)) = newComment r
       \<and> (\<exists>msg. toasts (snd (handleComment st r)) = toasts r @ [Toast_error msg])"
proof (cases "user r")
  case None
  then show ?thesis by (simp add: handleComment_def toast_reader_def)
next
  case (Some u)
  show ?thesis
  proof (cases "trim (newComment r) = []")
    case True
    with Some show ?thesis by (simp add: handleComment_def toast_reader_def)
  next
    case False
    with Some assms have "session st = None" by simp
    then have "\<exists>e. insert_comment (manga_id r) (chapterNumber r) (u_id u) (u_email u)
        (trim (newComment r)) st = Inl e"
      by (rule insert_comment_signed_out)
    then obtain e where "insert_comment (manga_id r) (chapterNumber r) (u_id u) (u_email u)
        (trim (newComment r)) st = Inl e"
      by (elim exE)
    with Some False show ?thesis by (simp add: handleComment_def toast_reader_def)
  qed
qed

lemma handleComment_draft_kept:
  assumes "comments (fst (handleComment st r)) = comments st"
  shows "fst (handleComment st r) = st \<and> newComment (snd (handleComment st r)) = newComment r"
proof (cases "user r")
  case None
  then show ?thesis by (simp add: handleComment_def toast_reader_def)
next
  case (Some u)
  show ?thesis
  proof (cases "trim (newComment r) = []")
    case True
    with Some show ?thesis by (simp add: handleComment_def toast_reader_def)
  next
    case False
    show ?thesis
    proof (cases "insert_comment (manga_id r) (chapterNumber r) (u_id u) (u_email u)
        (trim (newComment r)) st")
      case (Inl e)
      with Some False show ?thesis by (simp add: handleComment_def toast_reader_def)
    next
      case (Inr st')
      then have "\<exists>new. comments st' = comments st @ [new]"
        by (rule insert_comment_row)
      moreover have "fst (handleComment st r) = st'"
        using Some False Inr by (simp add: handleComment_def)
      ultimately have "comments (fst (handleComment st r)) \<noteq> comments st"
        by auto
      with assms show ?thesis by simp
    qed
  qed
qed

lemma handleComment_inserts:
  assumes "user r = Some u" and "u_email u = Some e" and "text_ok (utf16 e)"
    and "auth_uid st = Some (u_id u)"
    and "trim (newComment r) \<noteq> []" and "text_ok (trim (newComment r))"
    and "int4 (chapterNumber r)" and "online st"
  shows "\<exists>new. comments (fst (handleComment st r)) = comments st @ [new]
           \<and> c_manga_id new = manga_id r \<and> c_chapter new = chapterNumber r
           \<and> c_user_id new = u_id u \<and> c_user_email new = e
           \<and> c_content new = trim (newComment r)"
proof -
  let ?new = "\<lparr>c_id = uuid_source st (uuid_drawn st), c_manga_id = manga_id r,
               c_chapter = chapterNumber r, c_user_id = u_id u, c_user_email = e,
               c_content = trim (newComment r), c_created_at = clock st\<rparr>"
  let ?st2 = "st\<lparr>uuid_drawn := Suc (uuid_drawn st), comments := comments st @ [?new]\<rparr>"
  have ins: "insert_comment (manga_id r) (chapterNumber r) (u_id u) (Some e)
               (trim (newComment r)) st = Inr ?st2"
    using assms(8,4,7,3,6) by (rule insert_comment_accepted)
  have "fst (handleComment st r) = ?st2"
    using assms(1,2,5) by (simp add: handleComment_def ins)
  then have a: "comments (fst (handleComment st r)) = comments st @ [?new]"
    by simp
  have b: "c_manga_id ?new = manga_id r" "c_chapter ?new = chapterNumber r"
    "c_user_id ?new = u_id u" "c_user_email ?new = e" "c_content ?new = trim (newComment r)"
    by simp_all
  show ?thesis
    by (rule exI [of _ ?new]) (intro conjI a b)
qed

lemma trim_example: "trim [32, 104, 32, 105, 10] = [104, 32, 105]" "trim [32, 9] = []"
  by (simp_all add: trim_def is_whitespace_def)

text \<open>
  C6.  \<open>handleComment\<close> posts the draft with the white space at its ends removed, and
  that text is the content it checks and sends.  Without a signed-in user (the \<open>user\<close> of
  the client is null, or the session is gone), or with empty content (an empty draft in
  particular), no comment row is inserted: the store and the draft are as before and an
  error toast is shown.  Whenever no row is inserted the draft is as before.  With a
  user whose session is the store's, non-empty content that the store takes as a text, a
  chapter number in the range of the column and a store that is reached, one comment row
  is added that carries the manga id, the chapter number, the user's id and email, and
  the content.
\<close>

theorem handleComment_checks:
  "(user r = None \<or> session st = None \<or> trim (newComment r) = [] \<longrightarrow>
       fst (handleComment st r) = st
     \<and> newComment (snd (handleComment st r)) = newComment r
     \<and> (\<exists>msg. toasts (snd (handleComment st r)) = toasts r @ [Toast_error msg]))
   \<and> (newComment r = [] \<longrightarrow> trim (newComment r) = [])
   \<and> (comments (fst (handleComment st r)) = comments st \<longrightarrow>
        fst (handleComment st r) = st \<and> newComment (snd (handleComment st r)) = newComment r)
   \<and> (\<forall>u e. user r = Some u \<and> u_email u = Some e \<and> text_ok (utf16 e)
          \<and> auth_uid st = Some (u_id u)
          \<and> trim (newComment r) \<noteq> [] \<and> text_ok (trim (newComment r))
          \<and> int4 (chapterNumber r) \<and> online st \<longrightarrow>
        (\<exists>new. comments (fst (handleComment st r)) = comments st @ [new]
           \<and> c_manga_id new = manga_id r \<and> c_chapter new = chapterNumber r
           \<and> c_user_id new = u_id u \<and> c_user_email new = e
           \<and> c_content new = trim (newComment r)))"
proof (intro conjI impI allI)
  assume h: "user r = None \<or> session st = None \<or> trim (newComment r) = []"
  note rej = handleComment_rejected [OF h]
  show "fst (handleComment st r) = st"
    by (rule rej [THEN conjunct1])
  show "newComment (snd (handleComment st r)) = newComment r"
    by (rule rej [THEN conjunct2, THEN conjunct1])
  show "\<exists>msg. toasts (snd (handleComment st r)) = toasts r @ [Toast_error msg]"
    by (rule rej [THEN conjunct2, THEN conjunct2])
next
  assume "newComment r = []"
  then show "trim (newComment r) = []" by (simp add: trim_def)
next
  assume k: "comments (fst (handleComment st r)) = comments st"
  show "fst (handleComment st r) = st"
    by (rule handleComment_draft_kept [OF k, THEN conjunct1])
  show "newComment (snd (handleComment st r)) = newComment r"
    by (rule handleComment_draft_kept [OF k, THEN conjunct2])
next
  fix u e
  assume "user r = Some u \<and> u_email u = Some e \<and> text_ok (utf16 e)
          \<and> auth_uid st = Some (u_id u)
          \<and> trim (newComment r) \<noteq> [] \<and> text_ok (trim (newComment r))
          \<and> int4 (chapterNumber r) \<and> online st"
  then have "user r = Some u" "u_email u = Some e" "text_ok (utf16 e)"
    "auth_uid st = Some (u_id u)"
    "trim (newComment r) \<noteq> []" "text_ok (trim (newComment r))"
    "int4 (chapterNumber r)" "online st"
    by simp_all
  then show "\<exists>new. comments (fst (handleComment st r)) = comments st @ [new]
           \<and> c_manga_id new = manga_id r \<and> c_chapter new = chapterNumber r
           \<and> c_user_id new = u_id u \<and> c_user_email new = e
           \<and> c_content new = trim (newComment r)"
    by (rule handleComment_inserts)
qed

theorem handleComment_checks_witness:
  "(user reader0 = None \<or> session storeA = None \<or> trim (newComment reader0) = [])
   \<and> fst (handleComment storeA reader0) = storeA
   \<and> newComment (snd (handleComment storeA reader0)) = newComment reader0
   \<and> (user readerB = None \<or> session store1 = None \<or> trim (newComment readerB) = [])
   \<and> fst (handleComment store1 readerB) = store1
   \<and> newComment (snd (handleComment store1 readerB)) = [32, 104, 105, 32]
   \<and> newComment reader0 = [] \<and> trim (newComment reader0) = []
   \<and> user readerB = Some userA \<and> u_email userA = Some ''a@x.org'' \<and> text_ok (utf16 ''a@x.org'')
   \<and> auth_uid storeA = Some (u_id userA)
   \<and> trim (newComment readerB) \<noteq> [] \<and> text_ok (trim (newComment readerB))
   \<and> int4 (chapterNumber readerB) \<and> online storeA
   \<and> (\<exists>new. comments (fst (handleComment storeA readerB)) = comments storeA @ [new]
           \<and> c_manga_id new = ''X'' \<and> c_chapter new = 3
           \<and> c_user_id new = ''A'' \<and> c_user_email new = ''a@x.org''
           \<and> c_content new = [104, 105])"
proof -
  have h1: "user reader0 = None \<or> session storeA = None \<or> trim (newComment reader0) = []"
    by (simp add: reader0_def)
  have h2: "user readerB = None \<or> session store1 = None \<or> trim (newComment readerB) = []"
    by (simp add: store1_def store0_def)
  have h3: "newComment reader0 = []"
    by (simp add: reader0_def)
  have h4: "user readerB = Some userA \<and> u_email userA = Some ''a@x.org''
      \<and> text_ok (utf16 ''a@x.org'') \<and> auth_uid storeA = Some (u_id userA)
      \<and> trim (newComment readerB) \<noteq> [] \<and> text_ok (trim (newComment readerB))
      \<and> int4 (chapterNumber readerB) \<and> online storeA"
    by (simp add: readerB_def readerA_def reader0_def userA_def trim_def is_whitespace_def
        utf16_def int4_def auth_uid_def storeA_def store1_def store0_def)
  have draft: "newComment readerB = [32, 104, 105, 32]"
    by (simp add: readerB_def)
  have fields: "manga_id readerB = ''X''" "chapterNumber readerB = 3" "u_id userA = ''A''"
    "trim (newComment readerB) = [104, 105]"
    by (simp_all add: readerB_def readerA_def reader0_def userA_def trim_def is_whitespace_def)
  note t1 = handleComment_checks [of reader0 storeA, THEN conjunct1, THEN mp, OF h1]
  note t2 = handleComment_checks [of readerB store1, THEN conjunct1, THEN mp, OF h2]
  note t3 = handleComment_checks [of reader0 storeA, THEN conjunct2, THEN conjunct1,
      THEN mp, OF h3]
  note t4 = handleComment_checks [of readerB storeA, THEN conjunct2, THEN conjunct2,
      THEN conjunct2, THEN spec, THEN spec, THEN mp, OF h4]
  have a: "\<exists>new. comments (fst (handleComment storeA readerB)) = comments storeA @ [new]
           \<and> c_manga_id new = ''X'' \<and> c_chapter new = 3
           \<and> c_user_id new = ''A'' \<and> c_user_email new = ''a@x.org''
           \<and> c_content new = [104, 105]"
    using t4 unfolding fields .
  have b: "newComment (snd (handleComment store1 readerB)) = [32, 104, 105, 32]"
    using t2 [THEN conjunct2, THEN conjunct1] unfolding draft .
  show ?thesis
    using h1 t1 [THEN conjunct1] t1 [THEN conjunct2, THEN conjunct1]
      h2 t2 [THEN conjunct1] b h3 t3
      h4 [THEN conjunct1] h4 [THEN conjunct2, THEN conjunct1]
      h4 [THEN conjunct2, THEN conjunct2, THEN conjunct1]
      h4 [THEN conjunct2, THEN conjunct2, THEN conjunct2, THEN conjunct1]
      h4 [THEN conjunct2, THEN conjunct2, THEN conjunct2, THEN conjunct2, THEN conjunct1]
      h4 [THEN conjunct2, THEN conjunct2, THEN conjunct2, THEN conjunct2, THEN conjunct2,
        THEN conjunct1]
      h4 [THEN conjunct2, THEN conjunct2, THEN conjunct2, THEN conjunct2, THEN conjunct2,
        THEN conjunct2, THEN conjunct1]
      h4 [THEN conjunct2, THEN conjunct2, THEN conjunct2, THEN conjunct2, THEN conjunct2,
        THEN conjunct2, THEN conjunct2]
      a
    by (intro conjI)
qed

lemma handleComment_example:
  "comments (fst (handleComment storeA readerB)) =
     [\<lparr>c_id = ''u'', c_manga_id = ''X'', c_chapter = 3, c_user_id = ''A'',
       c_user_email = ''a@x.org'', c_content = [104, 105], c_created_at = 7\<rparr>]
   \<and> newComment (snd (handleComment storeA readerB)) = []
   \<and> comment_notifications (fst (handleComment storeA readerB)) = []"
  by (simp add: handleComment_def insert_comment_def gen_random_uuid_def Let_def
      notify_comment_subscribers_def visible_subscriptions_def auth_uid_def int4_def utf16_def
      toast_reader_def trim_def is_whitespace_def
      readerB_def readerA_def reader0_def userA_def storeA_def store1_def store0_def)

text \<open>
  A draft the store does not take as a text, and a user of the client whose session is
  gone: the failure is reported and the draft kept.
\<close>

lemma handleComment_refused_examples:
  "handleComment storeA (readerA\<lparr>newComment := [97, 0, 98]\<rparr>) =
     (storeA, readerA\<lparr>newComment := [97, 0, 98], toasts := [Toast_error ''Failed to add comment'']\<rparr>)"
  "handleComment store1 readerB =
     (store1, readerB\<lparr>toasts := [Toast_error ''Failed to add comment'']\<rparr>)"
  by (simp_all add: handleComment_def insert_comment_def auth_uid_def int4_def utf16_def
      toast_reader_def trim_def is_whitespace_def
      readerB_def readerA_def reader0_def userA_def storeA_def store1_def store0_def)

section \<open>Marking a notification as read\<close>

lemma markNotificationAsRead_store:
  assumes "online st"
  shows "markNotificationAsRead nid st a =
           (st\<lparr>admin_notifications :=
                 map (\<lambda>n. if an_id n = nid then n\<lparr>an_read := True\<rparr> else n)
                   (admin_notifications st)\<rparr>,
            a\<lparr>notifications :=
                 map (\<lambda>n. if an_id n = nid then n\<lparr>an_read := True\<rparr> else n) (notifications a),
              unreadCount := max 0 (unreadCount a - 1)\<rparr>)"
  using assms by (simp add: markNotificationAsRead_def update_admin_notification_read_def)



text \<open>
  The counter of unread notifications that the panel keeps is lowered at every call
  that succeeds, whatever the flag was; the panel only offers the action on rows it
  shows as unread.
\<close>

lemma markNotificationAsRead_count:
  "online st \<Longrightarrow>
   unreadCount (snd (markNotificationAsRead nid st a)) = max 0 (unreadCount a - 1)"
  by (simp add: markNotificationAsRead_store)




lemma markNotificationAsRead_example:
  "map an_read (admin_notifications store2) = [False]
   \<and> map an_read (admin_notifications (fst (markNotificationAsRead ''n1'' store2 admin2))) = [True]
   \<and> unreadCount (snd (markNotificationAsRead ''n1'' store2 admin2)) = 0"
  by (simp add: markNotificationAsRead_def update_admin_notification_read_def
      store2_def store0_def admin2_def admin0_def)

section \<open>The metadata lookup fails quietly\<close>

lemma searchManga_none:
  "api t = Request_failed \<or> api t = Response [] \<Longrightarrow> searchManga api t = None"
  by (auto simp: searchManga_def)

lemma handleFetchInfo_none:
  "searchManga api (title (form a)) = None \<Longrightarrow> form (handleFetchInfo api a) = form a"
  by (simp add: handleFetchInfo_def toast_admin_def)

lemma handleFetchInfo_example:
  "handleFetchInfo api_down admin1 =
     admin1\<lparr>admin_toasts := [Toast_error ''No manga information found'']\<rparr>"
  by (simp add: handleFetchInfo_def searchManga_def toast_admin_def api_down_def
      admin1_def admin0_def initialForm_def)

lemma toLowerCase_example: "toLowerCase ''Publishing'' = ''publishing''"
  by (simp add: toLowerCase_def)

text \<open>
  C9.  When the request to the metadata service fails or finds nothing, \<open>searchManga\<close>
  returns null, and \<open>handleFetchInfo\<close> leaves the form as it was.
\<close>

theorem searchManga_failure_nonfatal:
  "(api t = Request_failed \<or> api t = Response [] \<longrightarrow> searchManga api t = None)
   \<and> (api (title (form a)) = Request_failed \<or> api (title (form a)) = Response [] \<longrightarrow>
        form (handleFetchInfo api a) = form a)"
proof (intro conjI impI)
  assume "api t = Request_failed \<or> api t = Response []"
  then show "searchManga api t = None" by (rule searchManga_none)
next
  assume "api (title (form a)) = Request_failed \<or> api (title (form a)) = Response []"
  then have "searchManga api (title (form a)) = None" by (rule searchManga_none)
  then show "form (handleFetchInfo api a) = form a" by (rule handleFetchInfo_none)
qed

theorem searchManga_failure_nonfatal_witness:
  "(api_down ''Berserk'' = Request_failed \<or> api_down ''Berserk'' = Response [])
   \<and> searchManga api_down ''Berserk'' = None
   \<and> (api_empty (title (form admin1)) = Request_failed \<or> api_empty (title (form admin1)) = Response [])
   \<and> form (handleFetchInfo api_empty admin1) = form admin1"
proof -
  have h1: "api_down ''Berserk'' = Request_failed \<or> api_down ''Berserk'' = Response []"
    by (simp add: api_down_def)
  have h2: "api_empty (title (form admin1)) = Request_failed
      \<or> api_empty (title (form admin1)) = Response []"
    by (simp add: api_empty_def)
  show ?thesis
    using h1 searchManga_failure_nonfatal [of api_down "''Berserk''", THEN conjunct1, THEN mp, OF h1]
      h2 searchManga_failure_nonfatal [of api_empty _ admin1, THEN conjunct2, THEN mp, OF h2]
    by (intro conjI)
qed

section \<open>The profile of a signed-in user\<close>

text \<open>
  With a profile in the store, \<open>fetchUserProfile\<close> writes nothing.  Without one, and
  with no other profile under the name taken from the email, it adds the row.
\<close>

lemma find_snoc:
  "find P (xs @ [y]) = (case find P xs of None \<Rightarrow> (if P y then Some y else None) | Some x \<Rightarrow> Some x)"
  by (induction xs) simp_all

lemma fetchUserProfile_existing:
  assumes "online st" and "session st = Some au" and "find (\<lambda>p. p_user_id p = uid) (profiles st) = Some p"
  shows "fetchUserProfile uid st a =
           (st, a\<lparr>as_user := Some (app_user_of uid au p), as_loading := False\<rparr>)"
  using assms by (simp add: fetchUserProfile_def getUser_def select_profile_def)

lemma fetchUserProfile_creates:
  assumes "online st" and "session st = Some au"
    and "uid \<notin> set (map p_user_id (profiles st))"
    and "email_name (pr_email au) = None \<or> email_name (pr_email au) \<notin> set (map p_username (profiles st))"
  shows "profiles (fst (fetchUserProfile uid st a)) =
           profiles st @
             [\<lparr>p_user_id = uid, p_username = email_name (pr_email au), p_avatar_url = None,
               p_is_admin = False, p_created_at = clock st, p_updated_at = clock st\<rparr>]"
proof -
  have none: "find (\<lambda>p. p_user_id p = uid) (profiles st) = None"
    using assms(3) by (auto simp: find_None_iff)
  let ?row = "\<lparr>p_user_id = uid, p_username = email_name (pr_email au), p_avatar_url = None,
               p_is_admin = False, p_created_at = clock st, p_updated_at = clock st\<rparr>"
  let ?st1 = "st\<lparr>profiles := profiles st @ [?row]\<rparr>"
  have ins: "insert_profile uid (email_name (pr_email au)) False st = Inr ?st1"
    using assms(1,3,4) by (auto simp: insert_profile_def)
  have found: "find (\<lambda>p. p_user_id p = uid) (profiles ?st1) = Some ?row"
    using none by (simp add: find_snoc)
  have "fetchUserProfile uid st a =
      (?st1, a\<lparr>as_user := Some (app_user_of uid au ?row), as_loading := False\<rparr>)"
    using assms(1,2) none found
    by (simp add: fetchUserProfile_def getUser_def select_profile_def ins
        select_profile_single_def)
  then show ?thesis by simp
qed

lemma fetchUserProfile_existing_example:
  "fetchUserProfile ''U1'' store4 auth0 =
     (store4, \<lparr>as_user = Some \<lparr>u_id = ''U1'', u_email = Some ''alice@a.org'', u_isAdmin = False,
                               u_username = Some ''alice'', u_avatar_url = None\<rparr>,
               as_loading = False\<rparr>)"
  by (simp add: fetchUserProfile_def getUser_def select_profile_def app_user_of_def
      store4_def store3_def store0_def auth0_def)

lemma fetchUserProfile_creates_example:
  "profiles (fst (fetchUserProfile ''U3'' store5 auth0)) =
     profiles store5 @
       [\<lparr>p_user_id = ''U3'', p_username = Some ''bob'', p_avatar_url = None,
         p_is_admin = False, p_created_at = 7, p_updated_at = 7\<rparr>]"
  by (simp add: fetchUserProfile_def getUser_def select_profile_def insert_profile_def
      select_profile_single_def email_name_def store5_def store3_def store0_def auth0_def)

text \<open>
  C8.  After \<open>fetchUserProfile\<close> a profile row for the signed-in user is to exist.  When
  another profile has the name that \<open>email.split('@')[0]\<close> gives, the insert collides
  with \<open>username UNIQUE\<close>, the error is caught, the user is set to null, and no row for
  the user exists: here \<open>U2\<close> with \<open>alice@b.org\<close>, next to the profile \<open>alice\<close> of \<open>U1\<close>.
\<close>

theorem fetchUserProfile_username_taken:
  "getUser store3 = Inr (Some \<lparr>pr_id = ''U2'', pr_email = Some ''alice@b.org''\<rparr>)
   \<and> select_profile ''U2'' store3 = Inr None
   \<and> insert_profile ''U2'' (Some ''alice'') False store3 = Inl Unique_violation
   \<and> fetchUserProfile ''U2'' store3 auth0 = (store3, \<lparr>as_user = None, as_loading = False\<rparr>)
   \<and> ''U2'' \<notin> set (map p_user_id (profiles (fst (fetchUserProfile ''U2'' store3 auth0))))"
  by (simp add: fetchUserProfile_def getUser_def select_profile_def insert_profile_def
      email_name_def fetch_failed_def store3_def store0_def auth0_def)

section \<open>Pagination and the pages a handler holds\<close>

text \<open>
  A handler that holds the current pages keeps the page inside a non-empty chapter; the
  buttons call such a handler.
\<close>

lemma handlePageChange_pages: "pages (handlePageChange captured d r) = pages r"
  by (simp add: handlePageChange_def)

lemma handlePageChange_in_bounds:
  "pages r \<noteq> [] \<Longrightarrow> in_bounds r \<Longrightarrow> in_bounds (handlePageChange (pages r) d r)"
  by (cases d) (auto simp: handlePageChange_def in_bounds_def)

lemma page_changes_pages: "pages (page_changes ds r) = pages r"
  by (induction ds arbitrary: r) (simp_all add: handlePageChange_pages)

lemma page_changes_in_bounds:
  "pages r \<noteq> [] \<Longrightarrow> in_bounds r \<Longrightarrow> in_bounds (page_changes ds r)"
proof (induction ds arbitrary: r)
  case Nil
  then show ?case by simp
next
  case (Cons d ds)
  have "in_bounds (handlePageChange (pages r) d r)"
    using Cons.prems by (rule handlePageChange_in_bounds)
  moreover have "pages (handlePageChange (pages r) d r) \<noteq> []"
    using Cons.prems(1) by (simp add: handlePageChange_pages)
  ultimately show ?case
    using Cons.IH by simp
qed

lemma click_in_bounds:
  "pages r \<noteq> [] \<Longrightarrow> in_bounds r \<Longrightarrow> in_bounds (click d r)"
  by (simp add: click_def handlePageChange_in_bounds)

lemma handlePageChange_at_ends:
  "currentPage r = 0 \<Longrightarrow> currentPage (handlePageChange captured Prev r) = 0"
  "currentPage r = int (length captured) - 1 \<Longrightarrow>
   currentPage (handlePageChange captured Next r) = int (length captured) - 1"
  by (simp_all add: handlePageChange_def)

text \<open>
  The listener keeps the pages of the render its effect ran for, and the effect does not
  run again when the pages arrive.
\<close>

lemma effect_listener_pages: "listener_pages (effect answer r) = pages r"
  by (simp add: effect_def loadChapter_def toast_reader_def split: option.splits)

text \<open>
  C10.  In paginated mode, with a non-empty list of pages and \<open>currentPage = 0\<close>, the
  calls of \<open>handlePageChange\<close> are to keep \<open>currentPage\<close> between \<open>0\<close> and
  \<open>pages.length - 1\<close>.  After a first load that fails, a switch to paginated mode and a
  load that succeeds, the chapter has two pages and the page is 0; the right arrow key
  then calls a handler that holds the empty list, and the page becomes \<open>-1\<close>.
\<close>

theorem stale_listener_leaves_bounds:
  "pages reader_reloaded = [''p1.jpg'', ''p2.jpg'']
   \<and> readingMode reader_reloaded = Paginated
   \<and> currentPage reader_reloaded = 0
   \<and> listener_pages reader_reloaded = []
   \<and> pages (handleKeyPress Next reader_reloaded) = [''p1.jpg'', ''p2.jpg'']
   \<and> currentPage (handleKeyPress Next reader_reloaded) = - 1"
  by (simp add: handleKeyPress_def handlePageChange_def reader_reloaded_def
      toggleReadingMode_def effect_def loadChapter_def toast_reader_def
      reader_mounted_def reader0_def)

lemma click_example:
  "currentPage (click Next reader_reloaded) = 1"
  "currentPage (click Next (click Next reader_reloaded)) = 1"
  "currentPage (click Prev reader_reloaded) = 0"
  by (simp_all add: click_def handlePageChange_def reader_reloaded_def
      toggleReadingMode_def effect_def loadChapter_def toast_reader_def
      reader_mounted_def reader0_def)

end
